theory Spec2Isabelle
  imports Main "HOL-Library.Word"
begin

section \<open>Go values shared by the packages\<close>

text \<open>
  A Go \<^verbatim>\<open>error\<close> value is identified by its message (\<^verbatim>\<open>errors.New(msg)\<close>, or the
  message of an error that a library call handed back); the \<^verbatim>\<open>UnmarshalTypeError\<close> of
  package encoding/json is identified by the field it names. A run-time panic is a value of
  its own type: it is never an \<^verbatim>\<open>error\<close> that a caller can test with
  \<^verbatim>\<open>if err != nil\<close>. A function that can panic returns \<open>go_panic + 'a\<close>, with
  \<open>Inl\<close> the panic. A Go result pair \<^verbatim>\<open>(value, error)\<close> is a pair whose error is
  an option (\<open>None\<close> is \<^verbatim>\<open>nil\<close>), and a sum \<open>go_error + 'a\<close> where every
  \<^verbatim>\<open>return\<close> of the function gives either a value or an error.
\<close>

datatype go_error = ErrorsNew string | UnmarshalTypeError string

datatype go_panic = Panic string

text \<open>
  \<^verbatim>\<open>strings.ToLower\<close> and \<^verbatim>\<open>strings.ToTitle\<close> on the ASCII letters; every other
  byte is kept (the source only applies them to distribution names and to the field
  names of a struct). \<^verbatim>\<open>ToTitle\<close> maps every letter to its title case, which for
  an ASCII letter is its upper case: it is not \<^verbatim>\<open>strings.Title\<close>.
\<close>

definition upper_letters :: string where
  "upper_letters = ''ABCDEFGHIJKLMNOPQRSTUVWXYZ''"

definition lower_letters :: string where
  "lower_letters = ''abcdefghijklmnopqrstuvwxyz''"

definition lower_byte :: "char \<Rightarrow> char" where
  "lower_byte c =
     (case map_of (zip upper_letters lower_letters) c of Some l \<Rightarrow> l | None \<Rightarrow> c)"

definition title_byte :: "char \<Rightarrow> char" where
  "title_byte c =
     (case map_of (zip lower_letters upper_letters) c of Some u \<Rightarrow> u | None \<Rightarrow> c)"

definition ToLower :: "string \<Rightarrow> string" where
  "ToLower s = map lower_byte s"

definition ToTitle :: "string \<Rightarrow> string" where
  "ToTitle s = map title_byte s"

section \<open>Package host_system\<close>

datatype BaseCustomizationOptions = CustomizationLinuxOptions | CustomizationWinOptions





section \<open>Package network\<close>

datatype BaseCustomizationIpGenerator =
    CustomizationCustomIpGenerator
  | CustomizationDhcpIpGenerator
  | CustomizationFixedIp string

datatype BaseCustomizationIpV6Generator = CustomizationAutoIpV6Generator

record VirtualMachineIPAddress =
  Options :: "BaseCustomizationOptions option"
  IPv4 :: string
  Netmask :: string
  Gateway :: string
  Hostname :: string

subsection \<open>The part of package reflect that the validation uses\<close>

text \<open>
  A \<^verbatim>\<open>reflect.Value\<close> is modelled by what it holds. \<^verbatim>\<open>reflect.ValueOf(this)\<close>, for
  the receiver \<^verbatim>\<open>this *VirtualMachineIPAddress\<close>, is \<open>OfPointer d\<close> with \<open>d\<close> the
  struct the pointer refers to: its kind is Ptr. \<open>OfStruct d\<close> is the value of kind
  Struct that \<^verbatim>\<open>reflect.ValueOf(*this)\<close> or \<^verbatim>\<open>reflect.ValueOf(this).Elem()\<close> would be;
  the source calls neither. The documentation of package reflect states the panics:
  \<^verbatim>\<open>Type.NumField\<close> "panics if the type's Kind is not Struct", and so do
  \<^verbatim>\<open>Type.Field\<close>, \<^verbatim>\<open>Value.Field\<close> and \<^verbatim>\<open>Value.FieldByName\<close>; \<^verbatim>\<open>Value.Set\<close> panics
  when the value is not settable (the zero Value, or a field that was not reached
  through a pointer). \<^verbatim>\<open>Value.String\<close> does not panic: for a value that is not a
  string it returns the text \<^verbatim>\<open><T Value>\<close>.
\<close>

datatype reflect_Value =
    OfString string
  | OfOptions "BaseCustomizationOptions option"
  | OfIpGenerator BaseCustomizationIpGenerator
  | OfStruct VirtualMachineIPAddress
  | OfPointer VirtualMachineIPAddress

definition StructFields :: "VirtualMachineIPAddress \<Rightarrow> (string \<times> reflect_Value) list" where
  "StructFields d =
     [(''Options'', OfOptions (Options d)),
      (''IPv4'', OfString (IPv4 d)),
      (''Netmask'', OfString (Netmask d)),
      (''Gateway'', OfString (Gateway d)),
      (''Hostname'', OfString (Hostname d))]"

fun NumField :: "reflect_Value \<Rightarrow> go_panic + nat" where
  "NumField (OfStruct d) = Inr (length (StructFields d))"
| "NumField v = Inl (Panic ''reflect: NumField of non-struct type'')"

fun Type_Field_Name :: "reflect_Value \<Rightarrow> nat \<Rightarrow> go_panic + string" where
  "Type_Field_Name (OfStruct d) i =
     (if i < length (StructFields d) then Inr (fst (StructFields d ! i))
      else Inl (Panic ''reflect: Field index out of bounds''))"
| "Type_Field_Name v i = Inl (Panic ''reflect: Field of non-struct type'')"

fun Value_Field :: "reflect_Value \<Rightarrow> nat \<Rightarrow> go_panic + reflect_Value" where
  "Value_Field (OfStruct d) i =
     (if i < length (StructFields d) then Inr (snd (StructFields d ! i))
      else Inl (Panic ''reflect: Field index out of range''))"
| "Value_Field v i = Inl (Panic ''reflect: call of reflect.Value.Field on non-struct Value'')"

fun Value_String :: "reflect_Value \<Rightarrow> string" where
  "Value_String (OfString s) = s"
| "Value_String (OfOptions x) = ''<types.BaseCustomizationOptions Value>''"
| "Value_String (OfIpGenerator g) = ''<types.BaseCustomizationIpGenerator Value>''"
| "Value_String (OfStruct d) = ''<network.VirtualMachineIPAddress Value>''"
| "Value_String (OfPointer d) = ''<*network.VirtualMachineIPAddress Value>''"

fun Value_FieldByName :: "reflect_Value \<Rightarrow> string \<Rightarrow> go_panic + reflect_Value option" where
  "Value_FieldByName (OfStruct d) name = Inr (map_of (StructFields d) name)"
| "Value_FieldByName v name =
     Inl (Panic ''reflect: call of reflect.Value.FieldByName on non-struct Value'')"

text \<open>
  \<^verbatim>\<open>target.Set(x)\<close> for a \<open>target\<close> that \<open>Value_FieldByName\<close> returned: the zero Value
  when the struct has no such field, and otherwise a field of a struct that was not
  reached through a pointer, which is not settable. Both cases panic, so no call changes the
  struct.
\<close>

fun Value_Set ::
    "VirtualMachineIPAddress \<Rightarrow> reflect_Value option \<Rightarrow> reflect_Value
      \<Rightarrow> go_panic + VirtualMachineIPAddress" where
  "Value_Set d None x = Inl (Panic ''reflect: call of reflect.Value.Set on zero Value'')"
| "Value_Set d (Some target) x =
     Inl (Panic ''reflect: reflect.Value.Set using unaddressable value'')"

subsection \<open>ValidateCredentials and SetupPublicNetwork\<close>

text \<open>
  \<^verbatim>\<open>GetValidationRegexPatterns\<close> returns the empty map; indexing a Go map at a key it
  does not hold gives the zero value, the empty string.
\<close>

definition GetValidationRegexPatterns :: "string \<rightharpoonup> string" where
  "GetValidationRegexPatterns = Map.empty"

definition map_index :: "(string \<rightharpoonup> string) \<Rightarrow> string \<Rightarrow> string" where
  "map_index m k = (case m k of None \<Rightarrow> [] | Some v \<Rightarrow> v)"

definition FieldValueGenerators :: "(string \<times> BaseCustomizationIpGenerator) list" where
  "FieldValueGenerators =
     [(''Gateway'', CustomizationCustomIpGenerator),
      (''Netmask'', CustomizationDhcpIpGenerator),
      (''Hostname'', CustomizationCustomIpGenerator)]"

text \<open>
  The validation loop (part_000, lines 73 to 78). \<open>MatchString\<close> stands for
  \<^verbatim>\<open>regexp.MatchString\<close>, which returns \<^verbatim>\<open>(matched, err)\<close>; it is an argument of the
  model, and every theorem below holds for each function in its place. The loop test
  \<^verbatim>\<open>Index < reflect.TypeOf(this).NumField()\<close> is evaluated before every iteration,
  the first included.
\<close>

function validation_loop ::
    "(string \<Rightarrow> string \<Rightarrow> bool \<times> go_error option) \<Rightarrow> (string \<rightharpoonup> string)
      \<Rightarrow> reflect_Value \<Rightarrow> nat \<Rightarrow> string list \<Rightarrow> go_panic + string list" where
  "validation_loop MatchString Patterns this Index InvalidValues =
     (case NumField this of
        Inl p \<Rightarrow> Inl p
      | Inr n \<Rightarrow>
          if Index < n then
            (case Type_Field_Name this Index of
               Inl p \<Rightarrow> Inl p
             | Inr name \<Rightarrow>
                 (case Value_Field this Index of
                    Inl p \<Rightarrow> Inl p
                  | Inr field \<Rightarrow>
                      (case MatchString (map_index Patterns (ToLower name)) (Value_String field) of
                         (Matches, MatchError) \<Rightarrow>
                           validation_loop MatchString Patterns this (Index + 1)
                             (if MatchError \<noteq> None \<or> Matches \<noteq> True
                              then InvalidValues @ [name] else InvalidValues))))
          else Inr InvalidValues)"
  by pat_completeness auto
termination
  by (relation "measure (\<lambda>(MatchString, Patterns, this, Index, InvalidValues).
        (case NumField this of Inl p \<Rightarrow> 0 | Inr n \<Rightarrow> n - Index))") auto

text \<open>
  The generation loop (lines 81 to 86), over the invalid field names.
  \<^verbatim>\<open>maps.Keys\<close> lists the keys of the table; calling the \<^verbatim>\<open>nil\<close> function that
  indexing the table at a missing key returns is a nil dereference.
\<close>

fun generation_loop ::
    "(string \<times> BaseCustomizationIpGenerator) list \<Rightarrow> VirtualMachineIPAddress
      \<Rightarrow> string list \<Rightarrow> go_panic + VirtualMachineIPAddress" where
  "generation_loop Generators d [] = Inr d"
| "generation_loop Generators d (FieldName # rest) =
     (if ToTitle FieldName \<in> set (map fst Generators) then
        (case map_of Generators FieldName of
           None \<Rightarrow> Inl (Panic ''invalid memory address or nil pointer dereference'')
         | Some GeneratedValue \<Rightarrow>
             (case Value_FieldByName (OfPointer d) FieldName of
                Inl p \<Rightarrow> Inl p
              | Inr target \<Rightarrow>
                  (case Value_Set d target (OfIpGenerator GeneratedValue) of
                     Inl p \<Rightarrow> Inl p
                   | Inr d' \<Rightarrow> generation_loop Generators d' rest)))
      else generation_loop Generators d rest)"

definition ValidateCredentials ::
    "(string \<Rightarrow> string \<Rightarrow> bool \<times> go_error option) \<Rightarrow> VirtualMachineIPAddress
      \<Rightarrow> go_panic + VirtualMachineIPAddress" where
  "ValidateCredentials MatchString d =
     (case validation_loop MatchString GetValidationRegexPatterns (OfPointer d) 0 [] of
        Inl p \<Rightarrow> Inl p
      | Inr InvalidValues \<Rightarrow> generation_loop FieldValueGenerators d InvalidValues)"

record CustomizationIPSettingsIpV6AddressSpec =
  IpV6Spec_Ip :: "BaseCustomizationIpV6Generator list"

record CustomizationIPSettings =
  Adapter_Ip :: BaseCustomizationIpGenerator
  Adapter_SubnetMask :: string
  Adapter_Gateway :: "string list"
  Adapter_IpV6Spec :: CustomizationIPSettingsIpV6AddressSpec

record CustomizationAdapterMapping =
  Adapter :: CustomizationIPSettings

datatype CustomizationIdentitySettings =
  CustomizationLinuxPrep string

record CustomizationSpec =
  Spec_Options :: "BaseCustomizationOptions option"
  Spec_NicSettingMap :: "CustomizationAdapterMapping list"
  Spec_Identity :: CustomizationIdentitySettings

text \<open>
  \<^verbatim>\<open>SetupPublicNetwork\<close> (lines 107 to 132). \<open>CustomizationLinuxPrep name\<close> is the
  identity block whose host name is \<^verbatim>\<open>CustomizationFixedName{Name: name}\<close>. The only
  \<^verbatim>\<open>return\<close> of the function returns the specification with a \<^verbatim>\<open>nil\<close> error.
\<close>

definition SetupPublicNetwork ::
    "(string \<Rightarrow> string \<Rightarrow> bool \<times> go_error option) \<Rightarrow> VirtualMachineIPAddress
      \<Rightarrow> go_panic + (CustomizationSpec \<times> go_error option)" where
  "SetupPublicNetwork MatchString IPCredentials =
     (case ValidateCredentials MatchString IPCredentials of
        Inl p \<Rightarrow> Inl p
      | Inr Validated \<Rightarrow>
          Inr (\<lparr>Spec_Options = Options Validated,
                Spec_NicSettingMap =
                  [\<lparr>Adapter =
                      \<lparr>Adapter_Ip = CustomizationFixedIp (IPv4 Validated),
                       Adapter_SubnetMask = Netmask Validated,
                       Adapter_Gateway = [Gateway Validated],
                       Adapter_IpV6Spec = \<lparr>IpV6Spec_Ip = [CustomizationAutoIpV6Generator]\<rparr>\<rparr>\<rparr>],
                Spec_Identity = CustomizationLinuxPrep (Hostname Validated)\<rparr>,
               None))"

text \<open>
  The matcher used where a closed term is needed: \<^verbatim>\<open>regexp.MatchString\<close> on the empty
  pattern, the only pattern the source passes, reports a match for every text and no
  error. (On any other pattern this stand-in reports no match.)
\<close>

definition match_empty_pattern :: "string \<Rightarrow> string \<Rightarrow> bool \<times> go_error option" where
  "match_empty_pattern pattern s = (pattern = [], None)"

section \<open>Package parsers: the customer specification\<close>

text \<open>
  \<^verbatim>\<open>VirtualMachineCustomSpec\<close> (parsers.go, lines 75 to 106), one record for each of
  its anonymous structs. \<^verbatim>\<open>int64\<close> and \<^verbatim>\<open>int\<close> are 64-bit words and \<^verbatim>\<open>int32\<close> a
  32-bit word, read as signed. The fields of \<^verbatim>\<open>Network\<close> carry the prefix
  \<open>Network_\<close>, since \<open>VirtualMachineIPAddress\<close> has fields of the same names.
\<close>

record spec_Metadata =
  VirtualMachineId :: string
  VmOwnerId :: string

record spec_HostSystem =
  DistributionName :: string
  Bit :: "64 word"

record spec_Network =
  Network_IP :: string
  Network_Netmask :: string
  Network_Hostname :: string
  Network_Gateway :: string
  Network_Enablev6 :: bool
  Network_Enablev4 :: bool

record spec_Resources =
  CpuNum :: "32 word"
  MemoryInMegabytes :: "64 word"

record spec_Disk =
  CapacityInKB :: "64 word"

record VirtualMachineCustomSpec =
  Metadata :: spec_Metadata
  HostSystem :: spec_HostSystem
  Network :: spec_Network
  Resources :: spec_Resources
  Disk :: spec_Disk

section \<open>Package parsers: the remote-bound stages\<close>

subsection \<open>Timeout budgets\<close>

text \<open>
  A \<^verbatim>\<open>time.Duration\<close> counts nanoseconds. Each budget is the second argument of the
  \<^verbatim>\<open>context.WithTimeout\<close> call of its function: parsers.go line 61 (GetDatacenter),
  parsers.go line 144 (GetDiskStorageConfig), host_system.go line 62
  (SetupHostSystem) and part_000 line 150 (SetupPrivateNetwork).
\<close>

definition Minute :: int where
  "Minute = 60 * 1000000000"

definition GetDatacenter_Timeout :: int where
  "GetDatacenter_Timeout = Minute * 10"

definition GetDiskStorageConfig_Timeout :: int where
  "GetDiskStorageConfig_Timeout = Minute * 1"

definition SetupHostSystem_Timeout :: int where
  "SetupHostSystem_Timeout = Minute * 1"

definition SetupPrivateNetwork_Timeout :: int where
  "SetupPrivateNetwork_Timeout = Minute * 1"

subsection \<open>The control plane behind the client\<close>

record ManagedObjectReference =
  moref_Type :: string
  moref_Value :: string

text \<open>
  A value of the interface type \<^verbatim>\<open>object.Reference\<close>, by its dynamic type: one of
  govmomi's wrappers of package object (the string is the Go type, such as
  \<^verbatim>\<open>*object.VirtualMachine\<close>), or a \<^verbatim>\<open>*mo.VirtualMachine\<close> with its \<^verbatim>\<open>Self\<close>
  reference and its \<^verbatim>\<open>Datastore\<close> list, which has the \<^verbatim>\<open>Reference\<close> method too.
\<close>

datatype Reference =
    object_Reference string ManagedObjectReference
  | mo_VirtualMachine ManagedObjectReference "ManagedObjectReference list"

fun Reference_of :: "Reference \<Rightarrow> ManagedObjectReference" where
  "Reference_of (object_Reference dynamic_type e) = e"
| "Reference_of (mo_VirtualMachine self datastores) = self"

text \<open>
  \<^verbatim>\<open>object.NewReference\<close> switches on the type of the managed object reference and
  returns the wrapper of package object for it; it panics on a type it does not know.
\<close>

definition managed_entity_types :: "string list" where
  "managed_entity_types =
     [''Folder'', ''StoragePod'', ''Datacenter'', ''VirtualMachine'', ''VirtualApp'',
      ''ComputeResource'', ''ClusterComputeResource'', ''HostSystem'', ''Network'',
      ''OpaqueNetwork'', ''ResourcePool'', ''DistributedVirtualSwitch'',
      ''VmwareDistributedVirtualSwitch'', ''DistributedVirtualPortgroup'', ''Datastore'']"

definition NewReference :: "ManagedObjectReference \<Rightarrow> go_panic + Reference" where
  "NewReference e =
     (if moref_Type e \<in> set managed_entity_types
      then Inr (object_Reference (''*object.'' @ moref_Type e) e)
      else Inl (Panic (''Unknown managed entity: '' @ moref_Type e)))"

text \<open>
  The two type assertions of \<^verbatim>\<open>GetDiskStorageConfig\<close>, both in the one-result form
  \<^verbatim>\<open>x.(T)\<close>, which panics when \<open>x\<close> is \<^verbatim>\<open>nil\<close> or its dynamic type is not \<open>T\<close>.
\<close>

fun assert_object_VirtualMachine :: "Reference option \<Rightarrow> go_panic + Reference" where
  "assert_object_VirtualMachine None =
     Inl (Panic ''interface conversion: interface is nil, not *object.VirtualMachine'')"
| "assert_object_VirtualMachine (Some (object_Reference dynamic_type e)) =
     (if dynamic_type = ''*object.VirtualMachine'' then Inr (object_Reference dynamic_type e)
      else Inl (Panic ''interface conversion: object.Reference is not *object.VirtualMachine''))"
| "assert_object_VirtualMachine (Some (mo_VirtualMachine self datastores)) =
     Inl (Panic ''interface conversion: object.Reference is not *object.VirtualMachine'')"

fun assert_mo_VirtualMachine :: "Reference \<Rightarrow> go_panic + ManagedObjectReference list" where
  "assert_mo_VirtualMachine (mo_VirtualMachine self datastores) = Inr datastores"
| "assert_mo_VirtualMachine (object_Reference dynamic_type e) =
     Inl (Panic ''interface conversion: object.Reference is not *mo.VirtualMachine'')"

text \<open>The index expression \<^verbatim>\<open>xs[0]\<close> of a slice.\<close>

fun index0 :: "'a list \<Rightarrow> go_panic + 'a" where
  "index0 [] = Inl (Panic ''runtime error: index out of range [0] with length 0'')"
| "index0 (x # xs) = Inr x"

record mo_Datacenter =
  Datacenter_Self :: ManagedObjectReference

text \<open>
  What the infrastructure control plane answers to the two remote methods behind the
  calls of the source, each given the budget of the context it is called with. The
  answer to \<^verbatim>\<open>FindByInventoryPath\<close> is an error, or the reference the path resolves
  to, if any; the answer to \<^verbatim>\<open>RetrieveProperties\<close> is an error or none. Both are
  arguments of the model: a call that does not complete within its budget is an
  answer that is an error.
\<close>

record vim25_Client =
  FindByInventoryPath_answer :: "int \<Rightarrow> string \<Rightarrow> go_error + ManagedObjectReference option"
  RetrieveProperties_answer :: "int \<Rightarrow> ManagedObjectReference \<Rightarrow> go_error option"

text \<open>
  govmomi's \<^verbatim>\<open>SearchIndex.FindByInventoryPath\<close>: on an error of the remote method it
  returns \<^verbatim>\<open>nil\<close> and the error, on a path that resolves to nothing \<^verbatim>\<open>nil, nil\<close>, and
  otherwise \<^verbatim>\<open>object.NewReference\<close> of the reference and no error.
\<close>

definition FindByInventoryPath ::
    "vim25_Client \<Rightarrow> int \<Rightarrow> string \<Rightarrow> go_panic + (Reference option \<times> go_error option)" where
  "FindByInventoryPath Client budget path =
     (case FindByInventoryPath_answer Client budget path of
        Inl err \<Rightarrow> Inr (None, Some err)
      | Inr None \<Rightarrow> Inr (None, None)
      | Inr (Some e) \<Rightarrow>
          (case NewReference e of
             Inl p \<Rightarrow> Inl p
           | Inr r \<Rightarrow> Inr (Some r, None)))"


subsection \<open>GetDatacenter\<close>




subsection \<open>GetDiskStorageConfig\<close>

text \<open>
  Package models (\<^verbatim>\<open>models.Database\<close>, \<^verbatim>\<open>models.VirtualMachine\<close>) is not among the
  source files. A record of the store has the two columns the query of the source
  names, \<^verbatim>\<open>id\<close> and \<^verbatim>\<open>owner_id\<close>, and the \<^verbatim>\<open>ItemPath\<close> the source reads; the store
  is its records and the error of its connection, if any. The query
  \<^verbatim>\<open>Where("id = ? AND owner_id = ?", ...)\<close> selects the records that match both
  values. \<open>Find\<close> is GORM's \<^verbatim>\<open>Find(&Vm)\<close> into a struct: it leaves the first selected
  record in \<^verbatim>\<open>Vm\<close>, or the zero record when nothing is selected, and its \<^verbatim>\<open>Error\<close> is
  the error of the connection only (a selection of no record is an error for
  \<^verbatim>\<open>First\<close>, \<^verbatim>\<open>Take\<close> and \<^verbatim>\<open>Last\<close>, not for \<^verbatim>\<open>Find\<close>).
\<close>

record models_VirtualMachine =
  vm_id :: string
  vm_owner_id :: string
  vm_ItemPath :: string

record models_Database =
  Database_records :: "models_VirtualMachine list"
  Database_error :: "go_error option"

definition Where_id_and_owner_id ::
    "string \<Rightarrow> string \<Rightarrow> models_VirtualMachine list \<Rightarrow> models_VirtualMachine list" where
  "Where_id_and_owner_id vmId ownerId records =
     filter (\<lambda>r. vm_id r = vmId \<and> vm_owner_id r = ownerId) records"

definition zero_VirtualMachine :: models_VirtualMachine where
  "zero_VirtualMachine = \<lparr>vm_id = [], vm_owner_id = [], vm_ItemPath = []\<rparr>"

definition Find ::
    "models_Database \<Rightarrow> models_VirtualMachine list \<Rightarrow> models_VirtualMachine \<times> go_error option" where
  "Find Database selected =
     (case Database_error Database of
        Some err \<Rightarrow> (zero_VirtualMachine, Some err)
      | None \<Rightarrow>
          (case selected of
             [] \<Rightarrow> (zero_VirtualMachine, None)
           | r # rest \<Rightarrow> (r, None)))"

text \<open>
  Package storage_config is not among the source files either: \<open>SetupStorageDisk\<close>,
  an argument of the model, is its \<^verbatim>\<open>SetupStorageDisk\<close> on the requested capacity and
  the datastore, with the configuration reduced to the result pair.
\<close>

type_synonym 'c storage_setup = "int \<Rightarrow> ManagedObjectReference \<Rightarrow> 'c option \<times> go_error option"

text \<open>
  The function literal of lines 141 to 155. The type assertion of line 154 is
  evaluated before the function returns, whatever \<^verbatim>\<open>FindError\<close> is.
\<close>

definition find_virtual_machine ::
    "models_Database \<Rightarrow> vim25_Client \<Rightarrow> VirtualMachineCustomSpec
      \<Rightarrow> go_panic + (Reference option \<times> go_error option)" where
  "find_virtual_machine Database Client this =
     (case Find Database
             (Where_id_and_owner_id (VirtualMachineId (Metadata this))
                (VmOwnerId (Metadata this)) (Database_records Database)) of
        (Vm, GormError) \<Rightarrow>
          if GormError \<noteq> None then Inr (None, GormError)
          else
            (case FindByInventoryPath Client GetDiskStorageConfig_Timeout (vm_ItemPath Vm) of
               Inl p \<Rightarrow> Inl p
             | Inr (VirtualMachine, FindError) \<Rightarrow>
                 (case assert_object_VirtualMachine VirtualMachine of
                    Inl p \<Rightarrow> Inl p
                  | Inr vm \<Rightarrow> Inr (Some vm, FindError))))"

text \<open>
  Line 161: \<^verbatim>\<open>object.NewReference(...).(*mo.VirtualMachine).Datastore[0]\<close>, on the
  virtual machine the function literal returned.
\<close>

definition first_datastore :: "Reference option \<Rightarrow> go_panic + ManagedObjectReference" where
  "first_datastore VirtualMachine =
     (case VirtualMachine of
        None \<Rightarrow> Inl (Panic ''invalid memory address or nil pointer dereference'')
      | Some vm \<Rightarrow>
          (case NewReference (Reference_of vm) of
             Inl p \<Rightarrow> Inl p
           | Inr r \<Rightarrow>
               (case assert_mo_VirtualMachine r of
                  Inl p \<Rightarrow> Inl p
                | Inr Datastore \<Rightarrow> index0 Datastore)))"

definition GetDiskStorageConfig ::
    "models_Database \<Rightarrow> vim25_Client \<Rightarrow> 'c storage_setup \<Rightarrow> VirtualMachineCustomSpec
      \<Rightarrow> go_panic + ('c option \<times> go_error option)" where
  "GetDiskStorageConfig Database Client SetupStorageDisk this =
     (case find_virtual_machine Database Client this of
        Inl p \<Rightarrow> Inl p
      | Inr (VirtualMachine, FindError) \<Rightarrow>
          if FindError \<noteq> None then Inr (None, FindError)
          else
            (case first_datastore VirtualMachine of
               Inl p \<Rightarrow> Inl p
             | Inr Datastore \<Rightarrow> Inr (SetupStorageDisk (sint (CapacityInKB (Disk this))) Datastore)))"

section \<open>Package parsers: decoding the specification\<close>

subsection \<open>Strings in a JSON document\<close>

text \<open>
  Package encoding/json writes a Go string as JSON text after replacing every byte
  that is not part of a valid UTF-8 encoding by the replacement character U+FFFD
  (the bytes EF BF BD). \<open>utf8_size\<close> is the length of the valid encoding at the
  head of a string, or \<open>0\<close> when there is none (\<^verbatim>\<open>utf8.DecodeRuneInString\<close>
  returning \<^verbatim>\<open>RuneError\<close> with size 1); \<open>ValidString\<close> is \<^verbatim>\<open>utf8.ValidString\<close>.
\<close>

definition byte :: "char \<Rightarrow> nat" where
  "byte c = of_char c"

definition continuation :: "char \<Rightarrow> bool" where
  "continuation c = (128 \<le> byte c \<and> byte c \<le> 191)"

fun utf8_size :: "string \<Rightarrow> nat" where
  "utf8_size [] = 0"
| "utf8_size (a # rest) =
     (if byte a < 128 then 1
      else if 194 \<le> byte a \<and> byte a \<le> 223 then
        (case rest of b # _ \<Rightarrow> if continuation b then 2 else 0 | _ \<Rightarrow> 0)
      else if 224 \<le> byte a \<and> byte a \<le> 239 then
        (case rest of
           b # c # _ \<Rightarrow>
             if (if byte a = 224 then 160 \<le> byte b \<and> byte b \<le> 191
                 else if byte a = 237 then 128 \<le> byte b \<and> byte b \<le> 159
                 else continuation b) \<and> continuation c
             then 3 else 0
         | _ \<Rightarrow> 0)
      else if 240 \<le> byte a \<and> byte a \<le> 244 then
        (case rest of
           b # c # d # _ \<Rightarrow>
             if (if byte a = 240 then 144 \<le> byte b \<and> byte b \<le> 191
                 else if byte a = 244 then 128 \<le> byte b \<and> byte b \<le> 143
                 else continuation b) \<and> continuation c \<and> continuation d
             then 4 else 0
         | _ \<Rightarrow> 0)
      else 0)"

function ValidString :: "string \<Rightarrow> bool" where
  "ValidString [] = True"
| "ValidString (a # rest) =
     (if utf8_size (a # rest) = 0 then False
      else ValidString (drop (utf8_size (a # rest)) (a # rest)))"
  by pat_completeness auto
termination
  by (relation "measure length") auto

definition RuneError :: string where
  "RuneError = [char_of (239 :: nat), char_of (191 :: nat), char_of (189 :: nat)]"

function coerce_utf8 :: "string \<Rightarrow> string" where
  "coerce_utf8 [] = []"
| "coerce_utf8 (a # rest) =
     (if utf8_size (a # rest) = 0 then RuneError @ coerce_utf8 rest
      else take (utf8_size (a # rest)) (a # rest)
             @ coerce_utf8 (drop (utf8_size (a # rest)) (a # rest)))"
  by pat_completeness auto
termination
  by (relation "measure length") auto

subsection \<open>JSON documents and the decoder\<close>

text \<open>
  \<^verbatim>\<open>NewCustomConfig\<close> (parsers.go, lines 108 to 112) hands its argument to
  \<^verbatim>\<open>json.Unmarshal\<close>. The model starts from the document that the scanner of
  encoding/json reads from the text: the quoting of strings and the syntax of numbers
  are outside it, and a text that is no JSON document (a \<^verbatim>\<open>SyntaxError\<close>) has no
  counterpart. \<open>JNumber n\<close> is a number written as an integer; \<open>JNumberLiteral\<close> is
  any other number, with its text. A \<open>JString\<close> holds the bytes of the string after
  unquoting.
\<close>

datatype json =
    JNull
  | JBool bool
  | JNumber int
  | JNumberLiteral string
  | JString string
  | JArray "json list"
  | JObject "(string \<times> json) list"

text \<open>
  Decoding a value into a field of a basic type: \<^verbatim>\<open>null\<close> leaves the field as it is,
  a value of the right kind is stored, and any other value leaves the field as it is
  and is an \<^verbatim>\<open>UnmarshalTypeError\<close>. An integer must fit the size of the field. The
  decoder keeps the first error and goes on decoding.
\<close>

datatype 'a decoded = Keep | Store 'a | Mismatch

fun decode_string :: "json \<Rightarrow> string decoded" where
  "decode_string (JString s) = Store s"
| "decode_string JNull = Keep"
| "decode_string v = Mismatch"

fun decode_bool :: "json \<Rightarrow> bool decoded" where
  "decode_bool (JBool b) = Store b"
| "decode_bool JNull = Keep"
| "decode_bool v = Mismatch"

definition decode_int :: "nat \<Rightarrow> json \<Rightarrow> int decoded" where
  "decode_int bits v =
     (case v of
        JNumber n \<Rightarrow>
          if - (2 ^ (bits - 1)) \<le> n \<and> n < 2 ^ (bits - 1) then Store n else Mismatch
      | JNull \<Rightarrow> Keep
      | _ \<Rightarrow> Mismatch)"

definition saveError :: "go_error \<Rightarrow> go_error option \<Rightarrow> go_error option" where
  "saveError e saved = (case saved of None \<Rightarrow> Some e | Some first \<Rightarrow> Some first)"

definition assign ::
    "'a decoded \<Rightarrow> string \<Rightarrow> ('a \<Rightarrow> 's \<Rightarrow> 's) \<Rightarrow> 's \<times> go_error option
      \<Rightarrow> 's \<times> go_error option" where
  "assign r field update st =
     (case r of
        Keep \<Rightarrow> st
      | Store x \<Rightarrow> (update x (fst st), snd st)
      | Mismatch \<Rightarrow> (fst st, saveError (UnmarshalTypeError field) (snd st)))"

text \<open>
  The field for a key of an object: the field whose name (its \<^verbatim>\<open>json\<close> tag) is the
  key, and otherwise the first field whose name equals the key up to case; a key with
  no field is skipped. The members are decoded in the order of the document, so a
  repeated key stores its last value.
\<close>

definition field_for_key :: "string list \<Rightarrow> string \<Rightarrow> string option" where
  "field_for_key names key =
     (if key \<in> set names then Some key
      else find (\<lambda>name. ToLower name = ToLower key) names)"

definition decode_object ::
    "(string \<Rightarrow> json \<Rightarrow> 's \<Rightarrow> 's) \<Rightarrow> string list \<Rightarrow> (string \<times> json) list \<Rightarrow> 's \<Rightarrow> 's" where
  "decode_object set_field names members st =
     fold (\<lambda>(key, v) st.
             case field_for_key names key of
               None \<Rightarrow> st
             | Some field \<Rightarrow> set_field field v st)
          members st"

definition decode_struct ::
    "((string \<times> json) list \<Rightarrow> 's \<times> go_error option \<Rightarrow> 's \<times> go_error option)
      \<Rightarrow> string \<Rightarrow> json \<Rightarrow> 's \<times> go_error option \<Rightarrow> 's \<times> go_error option" where
  "decode_struct decode_members field v st =
     (case v of
        JObject members \<Rightarrow> decode_members members st
      | JNull \<Rightarrow> st
      | _ \<Rightarrow> (fst st, saveError (UnmarshalTypeError field) (snd st)))"

text \<open>
  The names are the \<^verbatim>\<open>json\<close> tags of the source. The tag of \<^verbatim>\<open>Bit\<close> is written
  \<^verbatim>\<open>json:"Bit;omitempty"\<close>, with a semicolon: the whole text is the name of the field,
  and the field has no option.
\<close>

definition Metadata_fields :: "string list" where
  "Metadata_fields = [''VirtualMachineId'', ''VmOwnerId'']"

definition set_Metadata ::
    "string \<Rightarrow> json \<Rightarrow> spec_Metadata \<times> go_error option \<Rightarrow> spec_Metadata \<times> go_error option" where
  "set_Metadata field v st =
     (if field = ''VirtualMachineId''
        then assign (decode_string v) field (\<lambda>x m. m\<lparr>VirtualMachineId := x\<rparr>) st
      else if field = ''VmOwnerId''
        then assign (decode_string v) field (\<lambda>x m. m\<lparr>VmOwnerId := x\<rparr>) st
      else st)"

definition HostSystem_fields :: "string list" where
  "HostSystem_fields = [''DistributionName'', ''Bit;omitempty'']"

definition set_HostSystem ::
    "string \<Rightarrow> json \<Rightarrow> spec_HostSystem \<times> go_error option
      \<Rightarrow> spec_HostSystem \<times> go_error option" where
  "set_HostSystem field v st =
     (if field = ''DistributionName''
        then assign (decode_string v) field (\<lambda>x h. h\<lparr>DistributionName := x\<rparr>) st
      else if field = ''Bit;omitempty''
        then assign (decode_int 64 v) field (\<lambda>x h. h\<lparr>Bit := word_of_int x\<rparr>) st
      else st)"

definition Network_fields :: "string list" where
  "Network_fields = [''IP'', ''Netmask'', ''Hostname'', ''Gateway'', ''Enablev6'', ''Enablev4'']"

definition set_Network ::
    "string \<Rightarrow> json \<Rightarrow> spec_Network \<times> go_error option \<Rightarrow> spec_Network \<times> go_error option" where
  "set_Network field v st =
     (if field = ''IP''
        then assign (decode_string v) field (\<lambda>x n. n\<lparr>Network_IP := x\<rparr>) st
      else if field = ''Netmask''
        then assign (decode_string v) field (\<lambda>x n. n\<lparr>Network_Netmask := x\<rparr>) st
      else if field = ''Hostname''
        then assign (decode_string v) field (\<lambda>x n. n\<lparr>Network_Hostname := x\<rparr>) st
      else if field = ''Gateway''
        then assign (decode_string v) field (\<lambda>x n. n\<lparr>Network_Gateway := x\<rparr>) st
      else if field = ''Enablev6''
        then assign (decode_bool v) field (\<lambda>x n. n\<lparr>Network_Enablev6 := x\<rparr>) st
      else if field = ''Enablev4''
        then assign (decode_bool v) field (\<lambda>x n. n\<lparr>Network_Enablev4 := x\<rparr>) st
      else st)"

definition Resources_fields :: "string list" where
  "Resources_fields = [''CpuNum'', ''MemoryInMegabytes'']"

definition set_Resources ::
    "string \<Rightarrow> json \<Rightarrow> spec_Resources \<times> go_error option
      \<Rightarrow> spec_Resources \<times> go_error option" where
  "set_Resources field v st =
     (if field = ''CpuNum''
        then assign (decode_int 32 v) field (\<lambda>x r. r\<lparr>CpuNum := word_of_int x\<rparr>) st
      else if field = ''MemoryInMegabytes''
        then assign (decode_int 64 v) field (\<lambda>x r. r\<lparr>MemoryInMegabytes := word_of_int x\<rparr>) st
      else st)"

definition Disk_fields :: "string list" where
  "Disk_fields = [''CapacityInKB'']"

definition set_Disk ::
    "string \<Rightarrow> json \<Rightarrow> spec_Disk \<times> go_error option \<Rightarrow> spec_Disk \<times> go_error option" where
  "set_Disk field v st =
     (if field = ''CapacityInKB''
        then assign (decode_int 64 v) field (\<lambda>x d. d\<lparr>CapacityInKB := word_of_int x\<rparr>) st
      else st)"

definition VirtualMachineCustomSpec_fields :: "string list" where
  "VirtualMachineCustomSpec_fields =
     [''Metadata'', ''HostSystem'', ''Network'', ''Resources'', ''Disk'']"

definition set_VirtualMachineCustomSpec ::
    "string \<Rightarrow> json \<Rightarrow> VirtualMachineCustomSpec \<times> go_error option
      \<Rightarrow> VirtualMachineCustomSpec \<times> go_error option" where
  "set_VirtualMachineCustomSpec field v st =
     (if field = ''Metadata'' then
        (case decode_struct (decode_object set_Metadata Metadata_fields) field v
                (Metadata (fst st), snd st) of
           (m, saved) \<Rightarrow> ((fst st)\<lparr>Metadata := m\<rparr>, saved))
      else if field = ''HostSystem'' then
        (case decode_struct (decode_object set_HostSystem HostSystem_fields) field v
                (HostSystem (fst st), snd st) of
           (h, saved) \<Rightarrow> ((fst st)\<lparr>HostSystem := h\<rparr>, saved))
      else if field = ''Network'' then
        (case decode_struct (decode_object set_Network Network_fields) field v
                (Network (fst st), snd st) of
           (n, saved) \<Rightarrow> ((fst st)\<lparr>Network := n\<rparr>, saved))
      else if field = ''Resources'' then
        (case decode_struct (decode_object set_Resources Resources_fields) field v
                (Resources (fst st), snd st) of
           (r, saved) \<Rightarrow> ((fst st)\<lparr>Resources := r\<rparr>, saved))
      else if field = ''Disk'' then
        (case decode_struct (decode_object set_Disk Disk_fields) field v
                (Disk (fst st), snd st) of
           (d, saved) \<Rightarrow> ((fst st)\<lparr>Disk := d\<rparr>, saved))
      else st)"

definition Unmarshal ::
    "json \<Rightarrow> VirtualMachineCustomSpec \<Rightarrow> VirtualMachineCustomSpec \<times> go_error option" where
  "Unmarshal document config =
     decode_struct (decode_object set_VirtualMachineCustomSpec VirtualMachineCustomSpec_fields)
       ''VirtualMachineCustomSpec'' document (config, None)"

definition zero_VirtualMachineCustomSpec :: VirtualMachineCustomSpec where
  "zero_VirtualMachineCustomSpec =
     \<lparr>Metadata = \<lparr>VirtualMachineId = [], VmOwnerId = []\<rparr>,
      HostSystem = \<lparr>DistributionName = [], Bit = 0\<rparr>,
      Network = \<lparr>Network_IP = [], Network_Netmask = [], Network_Hostname = [],
                 Network_Gateway = [], Network_Enablev6 = False, Network_Enablev4 = False\<rparr>,
      Resources = \<lparr>CpuNum = 0, MemoryInMegabytes = 0\<rparr>,
      Disk = \<lparr>CapacityInKB = 0\<rparr>\<rparr>"

definition NewCustomConfig :: "json \<Rightarrow> VirtualMachineCustomSpec \<times> go_error option" where
  "NewCustomConfig Config = Unmarshal Config zero_VirtualMachineCustomSpec"

subsection \<open>The encoding\<close>

text \<open>
  The document that \<^verbatim>\<open>json.Marshal\<close> writes for a \<^verbatim>\<open>VirtualMachineCustomSpec\<close>: the
  fields in the order of their declaration under the names of their tags, a field
  with the option \<^verbatim>\<open>omitempty\<close> left out when it is the empty string or \<^verbatim>\<open>false\<close>.
  The source has no call of \<^verbatim>\<open>Marshal\<close>; the encoding is the one the tags of the
  struct determine.
\<close>

definition string_member :: "string \<Rightarrow> string \<Rightarrow> (string \<times> json) list" where
  "string_member key s = [(key, JString (coerce_utf8 s))]"

definition omitempty_string :: "string \<Rightarrow> string \<Rightarrow> (string \<times> json) list" where
  "omitempty_string key s = (if s = [] then [] else string_member key s)"

definition omitempty_bool :: "string \<Rightarrow> bool \<Rightarrow> (string \<times> json) list" where
  "omitempty_bool key b = (if b then [(key, JBool b)] else [])"

definition int_member :: "string \<Rightarrow> 'a::len word \<Rightarrow> (string \<times> json) list" where
  "int_member key w = [(key, JNumber (sint w))]"

definition Marshal :: "VirtualMachineCustomSpec \<Rightarrow> json" where
  "Marshal v =
     JObject
       [(''Metadata'', JObject
           (string_member ''VirtualMachineId'' (VirtualMachineId (Metadata v))
            @ string_member ''VmOwnerId'' (VmOwnerId (Metadata v)))),
        (''HostSystem'', JObject
           (string_member ''DistributionName'' (DistributionName (HostSystem v))
            @ int_member ''Bit;omitempty'' (Bit (HostSystem v)))),
        (''Network'', JObject
           (omitempty_string ''IP'' (Network_IP (Network v))
            @ omitempty_string ''Netmask'' (Network_Netmask (Network v))
            @ omitempty_string ''Hostname'' (Network_Hostname (Network v))
            @ omitempty_string ''Gateway'' (Network_Gateway (Network v))
            @ omitempty_bool ''Enablev6'' (Network_Enablev6 (Network v))
            @ omitempty_bool ''Enablev4'' (Network_Enablev4 (Network v)))),
        (''Resources'', JObject
           (int_member ''CpuNum'' (CpuNum (Resources v))
            @ int_member ''MemoryInMegabytes'' (MemoryInMegabytes (Resources v)))),
        (''Disk'', JObject (int_member ''CapacityInKB'' (CapacityInKB (Disk v))))]"

text \<open>
  A specification is well formed when its strings are valid UTF-8 (every string that
  came out of the decoder is).
\<close>

definition well_formed :: "VirtualMachineCustomSpec \<Rightarrow> bool" where
  "well_formed v =
     (ValidString (VirtualMachineId (Metadata v)) \<and> ValidString (VmOwnerId (Metadata v))
      \<and> ValidString (DistributionName (HostSystem v))
      \<and> ValidString (Network_IP (Network v)) \<and> ValidString (Network_Netmask (Network v))
      \<and> ValidString (Network_Hostname (Network v))
      \<and> ValidString (Network_Gateway (Network v)))"

text \<open>
  The specification with every string as the encoder writes it.
\<close>

definition coerced :: "VirtualMachineCustomSpec \<Rightarrow> VirtualMachineCustomSpec" where
  "coerced v =
     \<lparr>Metadata =
        \<lparr>VirtualMachineId = coerce_utf8 (VirtualMachineId (Metadata v)),
         VmOwnerId = coerce_utf8 (VmOwnerId (Metadata v))\<rparr>,
      HostSystem =
        \<lparr>DistributionName = coerce_utf8 (DistributionName (HostSystem v)),
         Bit = Bit (HostSystem v)\<rparr>,
      Network =
        \<lparr>Network_IP = coerce_utf8 (Network_IP (Network v)),
         Network_Netmask = coerce_utf8 (Network_Netmask (Network v)),
         Network_Hostname = coerce_utf8 (Network_Hostname (Network v)),
         Network_Gateway = coerce_utf8 (Network_Gateway (Network v)),
         Network_Enablev6 = Network_Enablev6 (Network v),
         Network_Enablev4 = Network_Enablev4 (Network v)\<rparr>,
      Resources = Resources v,
      Disk = Disk v\<rparr>"

section \<open>Example inputs\<close>

text \<open>
  The specification of the scenarios of the spec; a control plane that resolves the
  inventory paths of its virtual machine and of its datacenter and no other path,
  and whose property retrieval runs out of its budget; three stores, holding no
  record with the id of the specification, a record with the id and another owner,
  and the record of the specification; and a disk setup that returns the capacity.
\<close>

definition example_spec :: VirtualMachineCustomSpec where
  "example_spec =
     \<lparr>Metadata = \<lparr>VirtualMachineId = ''vm-1'', VmOwnerId = ''owner-9''\<rparr>,
      HostSystem = \<lparr>DistributionName = ''ubuntu'', Bit = 64\<rparr>,
      Network = \<lparr>Network_IP = [], Network_Netmask = ''255.255.255.0'',
                 Network_Hostname = ''vm-1'', Network_Gateway = ''10.0.0.1'',
                 Network_Enablev6 = False, Network_Enablev4 = True\<rparr>,
      Resources = \<lparr>CpuNum = 2, MemoryInMegabytes = 4096\<rparr>,
      Disk = \<lparr>CapacityInKB = 20000\<rparr>\<rparr>"

definition example_client :: vim25_Client where
  "example_client =
     \<lparr>FindByInventoryPath_answer =
        (\<lambda>budget path.
           if path = ''/dc1/vm/vm-1''
           then Inr (Some \<lparr>moref_Type = ''VirtualMachine'', moref_Value = ''vm-42''\<rparr>)
           else if path = ''/dc1''
           then Inr (Some \<lparr>moref_Type = ''Datacenter'', moref_Value = ''datacenter-2''\<rparr>)
           else Inr None),
      RetrieveProperties_answer =
        (\<lambda>budget e. Some (ErrorsNew ''context deadline exceeded''))\<rparr>"

definition absent_store :: models_Database where
  "absent_store =
     \<lparr>Database_records =
        [\<lparr>vm_id = ''vm-2'', vm_owner_id = ''owner-9'', vm_ItemPath = ''/dc1/vm/vm-2''\<rparr>],
      Database_error = None\<rparr>"

definition foreign_store :: models_Database where
  "foreign_store =
     \<lparr>Database_records =
        [\<lparr>vm_id = ''vm-1'', vm_owner_id = ''owner-7'', vm_ItemPath = ''/dc1/vm/vm-1''\<rparr>],
      Database_error = None\<rparr>"

definition owned_store :: models_Database where
  "owned_store =
     \<lparr>Database_records =
        [\<lparr>vm_id = ''vm-1'', vm_owner_id = ''owner-9'', vm_ItemPath = ''/dc1/vm/vm-1''\<rparr>],
      Database_error = None\<rparr>"

definition example_setup :: "int storage_setup" where
  "example_setup capacity datastore = (Some capacity, None)"

section \<open>Host system: the option derivation\<close>




section \<open>Network: validation through reflection\<close>

text \<open>
  The loop test of the validation loop asks \<^verbatim>\<open>reflect.TypeOf(this)\<close>, a pointer type,
  for its number of fields: the first evaluation of the test panics, for every
  descriptor and every index.
\<close>

declare validation_loop.simps [simp del]

lemma validation_loop_OfPointer:
  "validation_loop MatchString Patterns (OfPointer d) Index InvalidValues
     = Inl (Panic ''reflect: NumField of non-struct type'')"
  by (subst validation_loop.simps) simp

lemma ValidateCredentials_panics:
  "ValidateCredentials MatchString d = Inl (Panic ''reflect: NumField of non-struct type'')"
  by (simp add: ValidateCredentials_def validation_loop_OfPointer)

lemma SetupPublicNetwork_panics:
  "SetupPublicNetwork MatchString d = Inl (Panic ''reflect: NumField of non-struct type'')"
  by (simp add: SetupPublicNetwork_def ValidateCredentials_panics)

text \<open>
  C10 (the code departs from the claim). The claim is that \<open>ValidateCredentials\<close>, as
  invoked from \<open>SetupPublicNetwork\<close>, terminates and returns a value without
  panicking on every descriptor. In the code the loop test panics on its first
  evaluation: for every matcher and every descriptor both functions end in the panic
  of \<^verbatim>\<open>NumField\<close> on a type that is not a struct.
\<close>

theorem ValidateCredentials_panics_on_every_descriptor:
  "ValidateCredentials MatchString d = Inl (Panic ''reflect: NumField of non-struct type'')
   \<and> SetupPublicNetwork MatchString d = Inl (Panic ''reflect: NumField of non-struct type'')"
  by (simp add: ValidateCredentials_panics SetupPublicNetwork_panics)

text \<open>
  C4 (the code departs from the claim). The claim is that a descriptor whose four
  identity fields are populated and valid comes back unchanged, with no generator
  invoked. On such a descriptor \<open>SetupPublicNetwork\<close> returns nothing: it ends in the
  panic of the validation loop.
\<close>

theorem SetupPublicNetwork_populated_descriptor_panics:
  "SetupPublicNetwork MatchString
     \<lparr>Options = None, IPv4 = ''10.0.0.5'', Netmask = ''255.255.255.0'',
      Gateway = ''10.0.0.1'', Hostname = ''vm-1''\<rparr>
   = Inl (Panic ''reflect: NumField of non-struct type'')"
  by (rule SetupPublicNetwork_panics)

text \<open>
  C2, as stated, fails. The descriptor below has an empty \<open>IPv4\<close>, which the spec
  counts as failing validation (empty when required), and the table has no generator
  for \<open>IPv4\<close>. \<open>SetupPublicNetwork\<close> does not fail with a validation error that
  names the field: its result is no error value at all.
\<close>

theorem SetupPublicNetwork_reports_no_invalid_field:
  "IPv4 \<lparr>Options = None, IPv4 = [], Netmask = ''255.255.255.0'',
          Gateway = ''10.0.0.1'', Hostname = ''vm-1''\<rparr> = []
   \<and> map_of FieldValueGenerators ''IPv4'' = None
   \<and> SetupPublicNetwork match_empty_pattern
        \<lparr>Options = None, IPv4 = [], Netmask = ''255.255.255.0'',
         Gateway = ''10.0.0.1'', Hostname = ''vm-1''\<rparr>
      = Inl (Panic ''reflect: NumField of non-struct type'')"
  by (simp add: SetupPublicNetwork_panics FieldValueGenerators_def)

text \<open>
  C2, amended. \<open>SetupPublicNetwork\<close> has no validation error: for every matcher and
  every descriptor, whatever its fields hold, the function does not return a
  non-\<^verbatim>\<open>nil\<close> error, so the fields that fail validation and have no generator are not
  named to the caller. The proof rests on the one \<^verbatim>\<open>return\<close> of the function alone.
\<close>

theorem SetupPublicNetwork_never_returns_an_error:
  "SetupPublicNetwork MatchString d \<noteq> Inr (spec, Some e)"
  by (simp add: SetupPublicNetwork_def split: sum.split)

theorem SetupPublicNetwork_never_returns_an_error_witness:
  "SetupPublicNetwork match_empty_pattern
     \<lparr>Options = None, IPv4 = [], Netmask = [], Gateway = [], Hostname = []\<rparr>
   \<noteq> Inr (\<lparr>Spec_Options = None, Spec_NicSettingMap = [],
             Spec_Identity = CustomizationLinuxPrep []\<rparr>,
           Some (ErrorsNew ''ValidationError: IPv4''))"
  by (rule SetupPublicNetwork_never_returns_an_error)

section \<open>Parsers: the datacenter lookup\<close>




section \<open>Parsers: the storage lookup\<close>

text \<open>
  Two stores with the same connection state in which the query selects the same
  records give the same result, for every control plane and every disk setup: the
  function reads nothing else of the store.
\<close>

lemma GetDiskStorageConfig_same_selection:
  assumes "Where_id_and_owner_id (VirtualMachineId (Metadata this))
             (VmOwnerId (Metadata this)) (Database_records Database)
           = Where_id_and_owner_id (VirtualMachineId (Metadata this))
             (VmOwnerId (Metadata this)) (Database_records Database')"
    and "Database_error Database = Database_error Database'"
  shows "GetDiskStorageConfig Database Client SetupStorageDisk this
         = GetDiskStorageConfig Database' Client SetupStorageDisk this"
  using assms by (simp add: GetDiskStorageConfig_def find_virtual_machine_def Find_def)

text \<open>
  Line 161 never yields a datastore: \<^verbatim>\<open>object.NewReference\<close> returns a wrapper of
  package object or panics, and the assertion to \<^verbatim>\<open>*mo.VirtualMachine\<close> panics on
  every wrapper. So \<open>GetDiskStorageConfig\<close> never returns without an error, and
  with a store whose connection has no error it does not return at all.
\<close>

lemma first_datastore_never_returns: "first_datastore VirtualMachine \<noteq> Inr Datastore"
  by (cases VirtualMachine)
    (auto simp: first_datastore_def NewReference_def split: sum.splits)

lemma FindByInventoryPath_no_error_with_reference:
  "FindByInventoryPath Client budget path = Inr (Some r, FindError) \<Longrightarrow> FindError = None"
  by (auto simp: FindByInventoryPath_def split: sum.splits option.splits)

lemma assert_object_VirtualMachine_reference:
  "assert_object_VirtualMachine v = Inr vm \<Longrightarrow> \<exists>r. v = Some r"
  by (cases v) simp_all

lemma find_virtual_machine_no_error:
  assumes "Database_error Database = None"
    and "find_virtual_machine Database Client this = Inr (VirtualMachine, FindError)"
  shows "FindError = None"
proof -
  have "\<exists>Vm. Find Database selected = (Vm, None)" for selected
    using assms(1) by (cases selected) (simp_all add: Find_def)
  then obtain Vm where v: "Find Database
      (Where_id_and_owner_id (VirtualMachineId (Metadata this))
         (VmOwnerId (Metadata this)) (Database_records Database)) = (Vm, None)"
    by blast
  then obtain found vm
    where f: "FindByInventoryPath Client GetDiskStorageConfig_Timeout (vm_ItemPath Vm)
                = Inr (found, FindError)"
      and a: "assert_object_VirtualMachine found = Inr vm"
    using assms(2)
    by (auto simp: find_virtual_machine_def split: sum.splits prod.splits)
  from a obtain r where "found = Some r"
    by (auto dest: assert_object_VirtualMachine_reference)
  with f show ?thesis
    by (auto dest: FindByInventoryPath_no_error_with_reference)
qed

lemma GetDiskStorageConfig_never_succeeds:
  "GetDiskStorageConfig Database Client SetupStorageDisk this \<noteq> Inr (config, None)"
  using first_datastore_never_returns
  by (auto simp: GetDiskStorageConfig_def split: sum.splits prod.splits if_splits)

lemma GetDiskStorageConfig_never_returns:
  assumes "Database_error Database = None"
  shows "GetDiskStorageConfig Database Client SetupStorageDisk this \<noteq> Inr result"
proof
  assume r: "GetDiskStorageConfig Database Client SetupStorageDisk this = Inr result"
  then obtain VirtualMachine FindError
    where f: "find_virtual_machine Database Client this = Inr (VirtualMachine, FindError)"
    by (auto simp: GetDiskStorageConfig_def split: sum.splits)
  then have "FindError = None"
    using assms by (rule find_virtual_machine_no_error [rotated])
  with f r first_datastore_never_returns show False
    by (auto simp: GetDiskStorageConfig_def split: sum.splits)
qed

text \<open>
  C5 (the code departs from the claim). The claim is that \<open>GetDiskStorageConfig\<close>
  returns a not-found error both when no record has the requested id and when the
  record with that id belongs to another owner, the two results being alike. In
  both stores the query selects nothing; \<open>Find\<close> then reports no error and leaves
  the zero record, the test of \<^verbatim>\<open>Gorm.Error\<close> lets it pass, and the function looks
  up the empty inventory path and ends in the panic of the type assertion of line
  154. The two results are alike, but they are a panic and not a not-found error.
\<close>

theorem GetDiskStorageConfig_absent_and_foreign_panic:
  "Where_id_and_owner_id (VirtualMachineId (Metadata example_spec))
       (VmOwnerId (Metadata example_spec)) (Database_records absent_store) = []
   \<and> Where_id_and_owner_id (VirtualMachineId (Metadata example_spec))
       (VmOwnerId (Metadata example_spec)) (Database_records foreign_store) = []
   \<and> GetDiskStorageConfig absent_store example_client example_setup example_spec
     = Inl (Panic ''interface conversion: interface is nil, not *object.VirtualMachine'')
   \<and> GetDiskStorageConfig foreign_store example_client example_setup example_spec
     = Inl (Panic ''interface conversion: interface is nil, not *object.VirtualMachine'')"
  by (simp add: GetDiskStorageConfig_def find_virtual_machine_def Find_def
      FindByInventoryPath_def Where_id_and_owner_id_def zero_VirtualMachine_def
      absent_store_def foreign_store_def example_client_def example_spec_def)

text \<open>
  C7 (the code departs from the claim). The claim is that a virtual machine with no
  attached datastore makes \<open>GetDiskStorageConfig\<close> fail with an error, the first
  datastore being selected only from a non-empty list. The selection has no guard:
  on the empty list it is the index panic. And for a record of the store whose path
  resolves to a virtual machine, the call ends in a panic on line 161, not in an
  error result.
\<close>

theorem GetDiskStorageConfig_unguarded_selection:
  "index0 ([] :: ManagedObjectReference list)
     = Inl (Panic ''runtime error: index out of range [0] with length 0'')
   \<and> GetDiskStorageConfig owned_store example_client example_setup example_spec
      = Inl (Panic ''interface conversion: object.Reference is not *mo.VirtualMachine'')"
  by (simp add: GetDiskStorageConfig_def find_virtual_machine_def first_datastore_def
      FindByInventoryPath_def NewReference_def managed_entity_types_def
      Where_id_and_owner_id_def Find_def owned_store_def
      example_client_def example_spec_def)

section \<open>Parsers: the timeout budgets\<close>

text \<open>
  C9 (the code departs from the claim). The claim is that every remote-bound stage
  has the same timeout budget. The budget of \<open>GetDatacenter\<close> is ten times the budget
  of \<open>GetDiskStorageConfig\<close>, which is the budget of the two other stages.
\<close>

theorem GetDatacenter_budget_differs:
  "GetDatacenter_Timeout = 10 * GetDiskStorageConfig_Timeout
   \<and> GetDatacenter_Timeout \<noteq> GetDiskStorageConfig_Timeout
   \<and> GetDiskStorageConfig_Timeout = SetupHostSystem_Timeout
   \<and> SetupHostSystem_Timeout = SetupPrivateNetwork_Timeout"
  by (simp add: GetDatacenter_Timeout_def GetDiskStorageConfig_Timeout_def
      SetupHostSystem_Timeout_def SetupPrivateNetwork_Timeout_def Minute_def)

section \<open>Parsers: decoding an encoded specification\<close>

lemma coerce_utf8_ValidString: "ValidString s \<Longrightarrow> coerce_utf8 s = s"
proof (induction s rule: coerce_utf8.induct)
  case 1
  then show ?case by simp
next
  case (2 a rest)
  then show ?case by (simp split: if_splits del: utf8_size.simps)
qed

lemma decode_object_append:
  "decode_object f names (xs @ ys) st = decode_object f names ys (decode_object f names xs st)"
  by (simp add: decode_object_def)

lemma decode_object_Nil: "decode_object f names [] st = st"
  by (simp add: decode_object_def)

lemma decode_object_single:
  "key \<in> set names \<Longrightarrow> decode_object f names [(key, v)] st = f key v st"
  by (simp add: decode_object_def field_for_key_def)

lemma decode_int_sint:
  "decode_int LENGTH('a) (JNumber (sint (w :: 'a::len word))) = Store (sint w)"
  using sint_ge [of w] sint_lt [of w] by (simp add: decode_int_def)

lemma decode_string_member:
  assumes "key \<in> set names"
  shows "decode_object f names (string_member key s) st = f key (JString (coerce_utf8 s)) st"
  using assms by (simp add: string_member_def decode_object_single)

lemma decode_int_member:
  assumes "key \<in> set names"
  shows "decode_object f names (int_member key w) st = f key (JNumber (sint w)) st"
  using assms by (simp add: int_member_def decode_object_single)

lemma decode_omitempty_string:
  assumes "key \<in> set names"
  shows "decode_object f names (omitempty_string key s) st
           = (if s = [] then st else f key (JString (coerce_utf8 s)) st)"
  using assms by (simp add: omitempty_string_def decode_string_member decode_object_Nil)

lemma decode_omitempty_bool:
  assumes "key \<in> set names"
  shows "decode_object f names (omitempty_bool key b) st
           = (if b then f key (JBool True) st else st)"
  using assms by (simp add: omitempty_bool_def decode_object_single decode_object_Nil)

lemma decode_int_64: "decode_int 64 (JNumber (sint (w :: 64 word))) = Store (sint w)"
  using decode_int_sint [of w] by simp

lemma decode_int_32: "decode_int 32 (JNumber (sint (w :: 32 word))) = Store (sint w)"
  using decode_int_sint [of w] by simp

lemma decode_Metadata:
  "decode_object set_Metadata Metadata_fields
     (string_member ''VirtualMachineId'' (VirtualMachineId m)
      @ string_member ''VmOwnerId'' (VmOwnerId m))
     (\<lparr>VirtualMachineId = [], VmOwnerId = []\<rparr>, None)
   = (\<lparr>VirtualMachineId = coerce_utf8 (VirtualMachineId m),
       VmOwnerId = coerce_utf8 (VmOwnerId m)\<rparr>, None)"
  by (simp add: decode_object_append decode_string_member Metadata_fields_def
      set_Metadata_def assign_def)

lemma decode_HostSystem:
  "decode_object set_HostSystem HostSystem_fields
     (string_member ''DistributionName'' (DistributionName h)
      @ int_member ''Bit;omitempty'' (Bit h))
     (\<lparr>DistributionName = [], Bit = 0\<rparr>, None)
   = (\<lparr>DistributionName = coerce_utf8 (DistributionName h), Bit = Bit h\<rparr>, None)"
  by (simp add: decode_object_append decode_string_member decode_int_member decode_int_64
      HostSystem_fields_def set_HostSystem_def assign_def)

lemma decode_Resources:
  "decode_object set_Resources Resources_fields
     (int_member ''CpuNum'' (CpuNum r)
      @ int_member ''MemoryInMegabytes'' (MemoryInMegabytes r))
     (\<lparr>CpuNum = 0, MemoryInMegabytes = 0\<rparr>, None) = (r, None)"
  by (cases r)
    (simp add: decode_object_append decode_int_member decode_int_64 decode_int_32
      Resources_fields_def set_Resources_def assign_def)

lemma decode_Disk:
  "decode_object set_Disk Disk_fields (int_member ''CapacityInKB'' (CapacityInKB d))
     (\<lparr>CapacityInKB = 0\<rparr>, None) = (d, None)"
  by (cases d)
    (simp add: decode_int_member decode_int_64 Disk_fields_def set_Disk_def assign_def)

lemma decode_Network:
  "decode_object set_Network Network_fields
     (omitempty_string ''IP'' (Network_IP n)
      @ omitempty_string ''Netmask'' (Network_Netmask n)
      @ omitempty_string ''Hostname'' (Network_Hostname n)
      @ omitempty_string ''Gateway'' (Network_Gateway n)
      @ omitempty_bool ''Enablev6'' (Network_Enablev6 n)
      @ omitempty_bool ''Enablev4'' (Network_Enablev4 n))
     (\<lparr>Network_IP = [], Network_Netmask = [], Network_Hostname = [],
       Network_Gateway = [], Network_Enablev6 = False, Network_Enablev4 = False\<rparr>, None)
   = (\<lparr>Network_IP = coerce_utf8 (Network_IP n),
       Network_Netmask = coerce_utf8 (Network_Netmask n),
       Network_Hostname = coerce_utf8 (Network_Hostname n),
       Network_Gateway = coerce_utf8 (Network_Gateway n),
       Network_Enablev6 = Network_Enablev6 n,
       Network_Enablev4 = Network_Enablev4 n\<rparr>, None)"
  by (simp add: decode_object_append decode_omitempty_string decode_omitempty_bool
      Network_fields_def set_Network_def assign_def)

text \<open>
  Decoding the encoding of any specification yields the specification with its
  strings as the encoder wrote them.
\<close>

lemma NewCustomConfig_Marshal_coerced:
  "NewCustomConfig (Marshal v) = (coerced v, None)"
  by (simp add: NewCustomConfig_def Unmarshal_def Marshal_def decode_struct_def
      decode_object_def [of set_VirtualMachineCustomSpec] field_for_key_def
      VirtualMachineCustomSpec_fields_def set_VirtualMachineCustomSpec_def
      zero_VirtualMachineCustomSpec_def decode_Metadata decode_HostSystem
      decode_Network decode_Resources decode_Disk coerced_def)

lemma coerced_well_formed: "well_formed v \<Longrightarrow> coerced v = v"
  by (simp add: coerced_def well_formed_def coerce_utf8_ValidString)

text \<open>
  C8. Decoding the encoding of a well-formed specification yields the specification,
  equal in every field, and no error.
\<close>

theorem NewCustomConfig_Marshal:
  assumes "well_formed v"
  shows "NewCustomConfig (Marshal v) = (v, None)"
  using assms by (simp add: NewCustomConfig_Marshal_coerced coerced_well_formed)

theorem NewCustomConfig_Marshal_witness:
  "well_formed example_spec \<and> NewCustomConfig (Marshal example_spec) = (example_spec, None)"
proof -
  have w: "well_formed example_spec"
    by (simp add: well_formed_def example_spec_def byte_def)
  show ?thesis
    using w NewCustomConfig_Marshal [OF w] by simp
qed

text \<open>
  The hypothesis is needed: a byte that is not UTF-8 comes back as the replacement
  character.
\<close>

lemma NewCustomConfig_Marshal_invalid_byte:
  "VirtualMachineId (Metadata (fst (NewCustomConfig (Marshal
      (example_spec\<lparr>Metadata := \<lparr>VirtualMachineId = [char_of (255 :: nat)],
                                   VmOwnerId = ''owner-9''\<rparr>\<rparr>)))))
   = RuneError"
  by (simp add: NewCustomConfig_Marshal_coerced coerced_def byte_def)

end
